theory Spec2Isabelle
  imports Main "HOL-Library.Char_ord" "HOL-Library.List_Lexorder"
begin

section \<open>Batch image renamer: file names\<close>

text \<open>
  The two scripts \<^verbatim>\<open>batch_rename_images.py\<close> (full variant) and \<^verbatim>\<open>simple_rename.py\<close>
  (minimal variant) rename the image files of one folder to zero-padded sequence numbers.
  A file name is a \<^typ>\<open>string\<close>; names are ordered as Python orders the paths of one
  folder, lexicographically by character code (\<open>Char_ord\<close>, \<open>List_Lexorder\<close>).
\<close>

text \<open>\<^verbatim>\<open>str.lower()\<close> on the ASCII letters. A suffix with a character outside ASCII is
  in neither extension set before or after lowering, so the ASCII part decides the filter.\<close>

definition lower_char :: "char \<Rightarrow> char" where
  "lower_char c =
     (if CHR ''A'' \<le> c \<and> c \<le> CHR ''Z'' then char_of (of_char c + (32::nat)) else c)"

definition lower :: "string \<Rightarrow> string" where
  "lower s = map lower_char s"

text \<open>\<^verbatim>\<open>str.rfind\<close> for one character: the last position of \<open>c\<close>, \<open>None\<close> for Python's -1.\<close>

fun rfind :: "char \<Rightarrow> string \<Rightarrow> nat option" where
  "rfind c [] = None"
| "rfind c (x # xs) =
     (case rfind c xs of
        Some i \<Rightarrow> Some (Suc i)
      | None \<Rightarrow> if x = c then Some 0 else None)"

text \<open>\<^verbatim>\<open>PurePath.suffix\<close> of a name: \<^verbatim>\<open>i = name.rfind('.')\<close>, then \<^verbatim>\<open>name[i:]\<close> when
  \<^verbatim>\<open>0 < i < len(name) - 1\<close> and the empty string otherwise.\<close>

definition suffix :: "string \<Rightarrow> string" where
  "suffix name =
     (case rfind CHR ''.'' name of
        None \<Rightarrow> []
      | Some i \<Rightarrow> if 0 < i \<and> i + 1 < length name then drop i name else [])"

text \<open>The format \<^verbatim>\<open>f"{i:04d}"\<close>: decimal digits, zero-filled to width four, the sign
  counted in the width (\<^verbatim>\<open>-5\<close> gives \<^verbatim>\<open>-005\<close>, \<^verbatim>\<open>12345\<close> gives \<^verbatim>\<open>12345\<close>).\<close>

definition digit_char :: "nat \<Rightarrow> char" where
  "digit_char n = char_of (48 + n)"

fun digits :: "nat \<Rightarrow> string" where
  "digits n = (if n < 10 then [digit_char n] else digits (n div 10) @ [digit_char (n mod 10)])"

declare digits.simps [simp del]

definition zfill :: "nat \<Rightarrow> string \<Rightarrow> string" where
  "zfill w s = replicate (w - length s) CHR ''0'' @ s"

definition pad4 :: "int \<Rightarrow> string" where
  "pad4 i = (if i < 0 then CHR ''-'' # zfill 3 (digits (nat (- i))) else zfill 4 (digits (nat i)))"

text \<open>\<^verbatim>\<open>new_name = f"{i:04d}{file_path.suffix.lower()}"\<close>, in both scripts.\<close>

definition new_name :: "int \<Rightarrow> string \<Rightarrow> string" where
  "new_name i name = pad4 i @ lower (suffix name)"

definition IMAGE_EXTENSIONS :: "string set" where
  "IMAGE_EXTENSIONS = set [''.jpg'', ''.jpeg'', ''.png'', ''.gif'', ''.bmp'', ''.tiff'', ''.tif'',
     ''.webp'', ''.svg'', ''.ico'', ''.raw'', ''.cr2'', ''.nef'', ''.arw'']"

definition image_extensions :: "string list" where
  "image_extensions = [''.jpg'', ''.jpeg'', ''.png'', ''.gif'', ''.bmp'', ''.tiff'', ''.webp'']"

section \<open>The folder and the rename call\<close>

text \<open>
  A folder maps the names of its entries to what they are: a regular file (with an
  identity that stands for its content) or a subdirectory. The path the scripts are given
  is missing, is something other than a directory, or is a directory.
\<close>

datatype node = File nat | Dir

type_synonym folder = "string \<Rightarrow> node option"

datatype path_status = Missing | NotDirectory | IsDirectory

datatype py_error = FileNotFoundError | NotADirectoryError | OSError | ValueError

definition is_file :: "folder \<Rightarrow> string \<Rightarrow> bool" where
  "is_file d name = (case d name of Some (File c) \<Rightarrow> True | _ \<Rightarrow> False)"

definition exists_path :: "folder \<Rightarrow> string \<Rightarrow> bool" where
  "exists_path d name = (d name \<noteq> None)"

text \<open>
  \<^verbatim>\<open>Path.rename\<close> inside one folder, with the meaning of POSIX \<^verbatim>\<open>rename(2)\<close>: a missing
  source fails, an existing target file is replaced silently, a target that is a directory
  fails. \<open>denied src dst\<close> stands for every other reason the operating system refuses the
  call (permissions, device errors, a path that is too long).
\<close>

definition path_rename ::
  "(string \<Rightarrow> string \<Rightarrow> bool) \<Rightarrow> string \<Rightarrow> string \<Rightarrow> folder \<Rightarrow> py_error + folder" where
  "path_rename denied src dst d =
     (case d src of
        None \<Rightarrow> Inl OSError
      | Some n \<Rightarrow>
          if denied src dst then Inl OSError
          else if src \<noteq> dst \<and> d dst = Some Dir then Inl OSError
          else Inr ((d(src := None))(dst \<mapsto> n)))"

section \<open>The run\<close>

text \<open>
  Every pass of the loop ends in one outcome. The full variant prints one line for each:
  \<^item> \<open>AlreadyNamed\<close>: \<^verbatim>\<open>Skipping ... (already correctly named)\<close> (the minimal variant
    continues without a line);
  \<^item> \<open>Collision\<close>: \<^verbatim>\<open>Warning: Target file ... already exists, skipping ...\<close>;
  \<^item> \<open>WouldRename\<close>: the line \<^verbatim>\<open>name -> new_name\<close> of a dry run;
  \<^item> \<open>Renamed\<close>: the same line after \<^verbatim>\<open>rename\<close> returned;
  \<^item> \<open>Failed\<close>: \<^verbatim>\<open>Error renaming ...\<close>, after \<^verbatim>\<open>rename\<close> raised.

  The state of a run is the folder, the outcomes so far (file name, target name, outcome),
  the calls of \<^verbatim>\<open>Path.rename\<close> made so far and the counter \<^verbatim>\<open>renamed_count\<close>.
\<close>

datatype outcome = AlreadyNamed | Collision | WouldRename | Renamed | Failed

record run_state =
  fs :: folder
  log :: "(string \<times> string \<times> outcome) list"
  calls :: "(string \<times> string) list"
  renamed_count :: nat

datatype report =
    ErrorReport py_error
  | Uncaught py_error
  | NoImageFiles
  | RenamedSummary nat
  | WouldRenameSummary nat
  | Done

definition initial :: "folder \<Rightarrow> run_state" where
  "initial d = \<lparr>fs = d, log = [], calls = [], renamed_count = 0\<rparr>"

text \<open>\<^verbatim>\<open>enumerate(xs, start=i)\<close>.\<close>

fun py_enumerate :: "int \<Rightarrow> 'a list \<Rightarrow> (int \<times> 'a) list" where
  "py_enumerate i [] = []"
| "py_enumerate i (x # xs) = (i, x) # py_enumerate (i + 1) xs"

text \<open>\<^verbatim>\<open>list.index\<close>: the first position of an element, \<open>None\<close> where Python raises
  \<^verbatim>\<open>ValueError\<close>.\<close>

fun py_index :: "'a list \<Rightarrow> 'a \<Rightarrow> nat option" where
  "py_index [] y = None"
| "py_index (x # xs) y = (if x = y then Some 0 else map_option Suc (py_index xs y))"

subsection \<open>Full variant\<close>

text \<open>\<^verbatim>\<open>get_image_files\<close>: \<open>listing\<close> is the order in which \<^verbatim>\<open>iterdir()\<close> yields the names
  of the folder.\<close>

definition get_image_files :: "path_status \<Rightarrow> string list \<Rightarrow> folder \<Rightarrow> py_error + string list" where
  "get_image_files st listing d =
     (if st = Missing then Inl FileNotFoundError
      else if st \<noteq> IsDirectory then Inl NotADirectoryError
      else Inr (sort (filter (\<lambda>p. is_file d p \<and> lower (suffix p) \<in> IMAGE_EXTENSIONS) listing)))"

text \<open>The body of the loop of \<^verbatim>\<open>rename_images\<close>, for the pair \<open>(i, file_path.name)\<close>.
  Both paths lie in the one folder, so \<^verbatim>\<open>new_path != file_path\<close> compares the names.\<close>

definition rename_step ::
  "(string \<Rightarrow> string \<Rightarrow> bool) \<Rightarrow> bool \<Rightarrow> run_state \<Rightarrow> int \<times> string \<Rightarrow> run_state" where
  "rename_step denied dry_run s e =
     (case e of (i, name) \<Rightarrow>
        let new = new_name i name in
        if name = new then s\<lparr>log := log s @ [(name, new, AlreadyNamed)]\<rparr>
        else if exists_path (fs s) new \<and> new \<noteq> name then
          s\<lparr>log := log s @ [(name, new, Collision)]\<rparr>
        else if dry_run then s\<lparr>log := log s @ [(name, new, WouldRename)]\<rparr>
        else
          (case path_rename denied name new (fs s) of
             Inr d' \<Rightarrow>
               s\<lparr>fs := d', log := log s @ [(name, new, Renamed)],
                 calls := calls s @ [(name, new)],
                 renamed_count := renamed_count s + 1\<rparr>
           | Inl err \<Rightarrow>
               s\<lparr>log := log s @ [(name, new, Failed)], calls := calls s @ [(name, new)]\<rparr>))"

text \<open>The count of the last line of a dry run:
  \<^verbatim>\<open>len([f for f in image_files if f.name != f'{image_files.index(f)+start_number:04d}{f.suffix.lower()}'])\<close>.
  \<^verbatim>\<open>index\<close> cannot raise here, \<open>f\<close> being an element of the list.\<close>

definition would_rename_count :: "int \<Rightarrow> string list \<Rightarrow> nat" where
  "would_rename_count start_number image_files =
     length (filter (\<lambda>f. case py_index image_files f of
                            Some k \<Rightarrow> f \<noteq> new_name (int k + start_number) f
                          | None \<Rightarrow> False) image_files)"

definition rename_images ::
  "(string \<Rightarrow> string \<Rightarrow> bool) \<Rightarrow> path_status \<Rightarrow> string list \<Rightarrow> int \<Rightarrow> bool \<Rightarrow> folder
     \<Rightarrow> report \<times> run_state" where
  "rename_images denied st listing start_number dry_run d =
     (case get_image_files st listing d of
        Inl err \<Rightarrow> (ErrorReport err, initial d)
      | Inr image_files \<Rightarrow>
          if image_files = [] then (NoImageFiles, initial d)
          else
            let s = foldl (rename_step denied dry_run) (initial d)
                      (py_enumerate start_number image_files)
            in (if \<not> dry_run then RenamedSummary (renamed_count s)
                else WouldRenameSummary (would_rename_count start_number image_files), s))"

subsection \<open>Minimal variant\<close>

text \<open>The body of the loop of \<^verbatim>\<open>rename_images_in_folder\<close>: no look at the target before
  the call, no counter.\<close>

definition simple_step ::
  "(string \<Rightarrow> string \<Rightarrow> bool) \<Rightarrow> run_state \<Rightarrow> int \<times> string \<Rightarrow> run_state" where
  "simple_step denied s e =
     (case e of (i, name) \<Rightarrow>
        let new = new_name i name in
        if name = new then s\<lparr>log := log s @ [(name, new, AlreadyNamed)]\<rparr>
        else
          (case path_rename denied name new (fs s) of
             Inr d' \<Rightarrow>
               s\<lparr>fs := d', log := log s @ [(name, new, Renamed)],
                 calls := calls s @ [(name, new)]\<rparr>
           | Inl err \<Rightarrow>
               s\<lparr>log := log s @ [(name, new, Failed)], calls := calls s @ [(name, new)]\<rparr>))"

text \<open>\<^verbatim>\<open>rename_images_in_folder\<close> tests only \<^verbatim>\<open>folder.exists()\<close>; on a path that is not a
  directory \<^verbatim>\<open>folder.iterdir()\<close> raises \<^verbatim>\<open>NotADirectoryError\<close>, which nothing catches.\<close>

definition simple_image_files :: "string list \<Rightarrow> folder \<Rightarrow> string list" where
  "simple_image_files listing d =
     sort (filter (\<lambda>p. is_file d p \<and> lower (suffix p) \<in> set image_extensions) listing)"

definition rename_images_in_folder ::
  "(string \<Rightarrow> string \<Rightarrow> bool) \<Rightarrow> path_status \<Rightarrow> string list \<Rightarrow> folder \<Rightarrow> report \<times> run_state" where
  "rename_images_in_folder denied st listing d =
     (if st = Missing then (ErrorReport FileNotFoundError, initial d)
      else if st \<noteq> IsDirectory then (Uncaught NotADirectoryError, initial d)
      else
        let image_files = simple_image_files listing d in
        if image_files = [] then (NoImageFiles, initial d)
        else (Done, foldl (simple_step denied) (initial d) (py_enumerate 1 image_files)))"

subsection \<open>Command line of the full variant\<close>

text \<open>
  \<open>main\<close> reads \<^verbatim>\<open>sys.argv\<close>. \<open>py_int\<close> is Python's \<^verbatim>\<open>int\<close> on a string, \<open>None\<close> where it
  raises \<^verbatim>\<open>ValueError\<close>; \<open>lookup\<close> gives, for a folder path, what the path is, the order of
  \<^verbatim>\<open>iterdir()\<close> and the folder. \<open>Exited\<close> is \<^verbatim>\<open>sys.exit\<close> before \<^verbatim>\<open>rename_images\<close> is
  called; \<open>Completed\<close> carries the run.
\<close>

datatype usage = UsageText | RequiresNumber | InvalidStartNumber

datatype main_result = Exited nat usage | Completed "report \<times> run_state"

definition main ::
  "(string \<Rightarrow> int option) \<Rightarrow> (string \<Rightarrow> string \<Rightarrow> bool) \<Rightarrow>
   (string \<Rightarrow> path_status \<times> string list \<times> folder) \<Rightarrow> string list \<Rightarrow> main_result" where
  "main py_int denied lookup argv =
     (if length argv < 2 then Exited 1 UsageText
      else
        let folder_path = argv ! 1;
            dry_run = (''--dry-run'' \<in> set argv);
            run = (\<lambda>start_number.
                     case lookup folder_path of
                       (st, listing, d) \<Rightarrow>
                         Completed (rename_images denied st listing start_number dry_run d))
        in
          if ''--start-number'' \<in> set argv then
            (case py_index argv ''--start-number'' of
               None \<Rightarrow> Exited 1 InvalidStartNumber
             | Some start_idx \<Rightarrow>
                 if start_idx + 1 < length argv then
                   (case py_int (argv ! (start_idx + 1)) of
                      Some n \<Rightarrow> run n
                    | None \<Rightarrow> Exited 1 InvalidStartNumber)
                 else Exited 1 RequiresNumber)
          else run 1)"

subsection \<open>Reading the outcomes\<close>

text \<open>The file name and the target name of one recorded outcome.\<close>

definition planned :: "(string \<times> string \<times> outcome) \<Rightarrow> string \<times> string" where
  "planned e = (fst e, fst (snd e))"

text \<open>An outcome that the summary of a live run counts.\<close>

definition is_renamed :: "(string \<times> string \<times> outcome) \<Rightarrow> bool" where
  "is_renamed e = (snd (snd e) = Renamed)"





section \<open>Enumeration and the order of processing\<close>

lemma length_py_enumerate [simp]: "length (py_enumerate i xs) = length xs"
  by (induction xs arbitrary: i) simp_all

lemma nth_py_enumerate: "k < length xs \<Longrightarrow> py_enumerate i xs ! k = (i + int k, xs ! k)"
proof (induction xs arbitrary: i k)
  case Nil
  then show ?case by simp
next
  case (Cons x xs)
  show ?case
  proof (cases k)
    case 0
    then show ?thesis by simp
  next
    case (Suc j)
    with Cons.prems have "j < length xs" by simp
    from Cons.IH [OF this, of "i + 1"] Suc show ?thesis by simp
  qed
qed



lemma planned_rename_step:
  "map planned (log (rename_step denied dry s (i, f))) = map planned (log s) @ [(f, new_name i f)]"
  by (simp add: rename_step_def Let_def planned_def split: sum.splits)

lemma planned_simple_step:
  "map planned (log (simple_step denied s (i, f))) = map planned (log s) @ [(f, new_name i f)]"
  by (simp add: simple_step_def Let_def planned_def split: sum.splits)

lemma planned_foldl_rename_step:
  "map planned (log (foldl (rename_step denied dry) s es)) =
     map planned (log s) @ map (\<lambda>e. (snd e, new_name (fst e) (snd e))) es"
proof (induction es arbitrary: s)
  case Nil
  show ?case by simp
next
  case (Cons e es)
  obtain i f where e: "e = (i, f)" by (cases e)
  show ?case
    by (simp add: Cons.IH e planned_rename_step)
qed

lemma planned_foldl_simple_step:
  "map planned (log (foldl (simple_step denied) s es)) =
     map planned (log s) @ map (\<lambda>e. (snd e, new_name (fst e) (snd e))) es"
proof (induction es arbitrary: s)
  case Nil
  show ?case by simp
next
  case (Cons e es)
  obtain i f where e: "e = (i, f)" by (cases e)
  show ?case
    by (simp add: Cons.IH e planned_simple_step)
qed

lemma planned_rename_images:
  assumes "get_image_files st listing d = Inr files"
  shows "map planned (log (snd (rename_images denied st listing start dry d))) =
           map (\<lambda>e. (snd e, new_name (fst e) (snd e))) (py_enumerate start files)"
  using assms
  by (cases "files = []")
    (simp_all add: rename_images_def Let_def planned_foldl_rename_step initial_def)

lemma planned_rename_images_in_folder:
  shows "map planned (log (snd (rename_images_in_folder denied IsDirectory listing d))) =
           map (\<lambda>e. (snd e, new_name (fst e) (snd e))) (py_enumerate 1 (simple_image_files listing d))"
  by (cases "simple_image_files listing d = []")
    (simp_all add: rename_images_in_folder_def Let_def planned_foldl_simple_step initial_def)

text \<open>
  Claim C1. The eligible files are processed in sorted order of their names, and the file
  at position \<open>k\<close> (from 0) gets the target name \<open>pad4 (start_number + k)\<close> followed by its
  own extension in lower case; the minimal variant starts at 1. The target depends on the
  position, the start number and the file's extension only, whatever the outcome is.
\<close>

theorem target_names_by_position:
  assumes "get_image_files IsDirectory listing d = Inr files"
    and "simple_image_files listing d = files1"
  shows "sorted files \<and> sorted files1 \<and>
    map planned (log (snd (rename_images denied IsDirectory listing start_number dry_run d))) =
      map (\<lambda>k. (files ! k, pad4 (start_number + int k) @ lower (suffix (files ! k))))
        [0..<length files] \<and>
    map planned (log (snd (rename_images_in_folder denied IsDirectory listing d))) =
      map (\<lambda>k. (files1 ! k, pad4 (1 + int k) @ lower (suffix (files1 ! k))))
        [0..<length files1]"
proof -
  have s: "sorted files" "sorted files1"
    using assms by (auto simp: get_image_files_def simple_image_files_def)
  have e: "map (\<lambda>e. (snd e, new_name (fst e) (snd e))) (py_enumerate i xs) =
      map (\<lambda>k. (xs ! k, pad4 (i + int k) @ lower (suffix (xs ! k)))) [0..<length xs]" for i xs
    by (rule nth_equalityI) (simp_all add: nth_py_enumerate new_name_def)
  show ?thesis
    using s planned_rename_images [OF assms(1)] planned_rename_images_in_folder assms(2)
    by (simp add: e)
qed

theorem target_names_by_position_witness:
  "get_image_files IsDirectory [''c.png'', ''notes.txt'', ''a.JPG'', ''b.gif'']
      [''c.png'' \<mapsto> File 1, ''notes.txt'' \<mapsto> File 2, ''a.JPG'' \<mapsto> File 3, ''b.gif'' \<mapsto> File 4]
     = Inr [''a.JPG'', ''b.gif'', ''c.png''] \<and>
   simple_image_files [''c.png'', ''notes.txt'', ''a.JPG'', ''b.gif'']
      [''c.png'' \<mapsto> File 1, ''notes.txt'' \<mapsto> File 2, ''a.JPG'' \<mapsto> File 3, ''b.gif'' \<mapsto> File 4]
     = [''a.JPG'', ''b.gif'', ''c.png''] \<and>
   map planned (log (snd (rename_images (\<lambda>a b. False) IsDirectory
      [''c.png'', ''notes.txt'', ''a.JPG'', ''b.gif''] 100 False
      [''c.png'' \<mapsto> File 1, ''notes.txt'' \<mapsto> File 2, ''a.JPG'' \<mapsto> File 3, ''b.gif'' \<mapsto> File 4])))
     = [(''a.JPG'', ''0100.jpg''), (''b.gif'', ''0101.gif''), (''c.png'', ''0102.png'')] \<and>
   map planned (log (snd (rename_images_in_folder (\<lambda>a b. False) IsDirectory
      [''c.png'', ''notes.txt'', ''a.JPG'', ''b.gif'']
      [''c.png'' \<mapsto> File 1, ''notes.txt'' \<mapsto> File 2, ''a.JPG'' \<mapsto> File 3, ''b.gif'' \<mapsto> File 4])))
     = [(''a.JPG'', ''0001.jpg''), (''b.gif'', ''0002.gif''), (''c.png'', ''0003.png'')]"
proof -
  let ?l = "[''c.png'', ''notes.txt'', ''a.JPG'', ''b.gif'']"
  let ?d = "[''c.png'' \<mapsto> File 1, ''notes.txt'' \<mapsto> File 2, ''a.JPG'' \<mapsto> File 3, ''b.gif'' \<mapsto> File 4]"
  let ?fs = "[''a.JPG'', ''b.gif'', ''c.png'']"
  have h1: "get_image_files IsDirectory ?l ?d = Inr ?fs" by code_simp
  have h2: "simple_image_files ?l ?d = ?fs" by code_simp
  have r1: "map (\<lambda>k. (?fs ! k, pad4 (100 + int k) @ lower (suffix (?fs ! k)))) [0..<length ?fs]
     = [(''a.JPG'', ''0100.jpg''), (''b.gif'', ''0101.gif''), (''c.png'', ''0102.png'')]"
    by code_simp
  have r2: "map (\<lambda>k. (?fs ! k, pad4 (1 + int k) @ lower (suffix (?fs ! k)))) [0..<length ?fs]
     = [(''a.JPG'', ''0001.jpg''), (''b.gif'', ''0002.gif''), (''c.png'', ''0003.png'')]"
    by code_simp
  note t = target_names_by_position [OF h1 h2, of "\<lambda>a b. False" 100 False]
  from t have a: "map planned (log (snd (rename_images (\<lambda>a b. False) IsDirectory ?l 100 False ?d))) =
     map (\<lambda>k. (?fs ! k, pad4 (100 + int k) @ lower (suffix (?fs ! k)))) [0..<length ?fs]"
    by (elim conjE)
  from t have b: "map planned (log (snd (rename_images_in_folder (\<lambda>a b. False) IsDirectory ?l ?d))) =
     map (\<lambda>k. (?fs ! k, pad4 (1 + int k) @ lower (suffix (?fs ! k)))) [0..<length ?fs]"
    by (elim conjE)
  show ?thesis
    using h1 h2 trans [OF a r1] trans [OF b r2] by (intro conjI)
qed

section \<open>The order of the directory listing\<close>

lemma sort_filter_listing:
  fixes l1 l2 :: "string list"
  assumes "distinct l1" "distinct l2" "set l1 = set l2"
  shows "sort (filter P l1) = sort (filter P l2)"
proof (rule sorted_distinct_set_unique)
  show "sorted (sort (filter P l1))" "sorted (sort (filter P l2))" by simp_all
  show "distinct (sort (filter P l1))" "distinct (sort (filter P l2))"
    using assms by simp_all
  show "set (sort (filter P l1)) = set (sort (filter P l2))"
    using assms by simp
qed

text \<open>
  Claim C9. The names of a folder are distinct, so two listings of one folder are two
  distinct lists with the same elements. Both variants then give the same report, the
  same outcomes in the same order and the same folder: the run is a function of the
  entries, the start number and the folder, not of the order of \<^verbatim>\<open>iterdir()\<close>.
\<close>

theorem listing_order_irrelevant:
  assumes "distinct l1" and "distinct l2" and "set l1 = set l2"
  shows "rename_images denied st l1 start_number dry_run d =
           rename_images denied st l2 start_number dry_run d \<and>
         rename_images_in_folder denied st l1 d = rename_images_in_folder denied st l2 d"
proof -
  have "get_image_files st l1 d = get_image_files st l2 d"
    by (simp add: get_image_files_def sort_filter_listing [OF assms])
  moreover have "simple_image_files l1 d = simple_image_files l2 d"
    by (simp add: simple_image_files_def sort_filter_listing [OF assms])
  ultimately show ?thesis
    by (simp add: rename_images_def rename_images_in_folder_def)
qed

theorem listing_order_irrelevant_witness:
  "distinct [''b.png'', ''a.jpg''] \<and> distinct [''a.jpg'', ''b.png''] \<and>
   set [''b.png'', ''a.jpg''] = set [''a.jpg'', ''b.png''] \<and>
   rename_images (\<lambda>src dst. False) IsDirectory [''b.png'', ''a.jpg''] 1 False [''a.jpg'' \<mapsto> File 1, ''b.png'' \<mapsto> File 2] =
     rename_images (\<lambda>src dst. False) IsDirectory [''a.jpg'', ''b.png''] 1 False [''a.jpg'' \<mapsto> File 1, ''b.png'' \<mapsto> File 2] \<and>
   rename_images_in_folder (\<lambda>src dst. False) IsDirectory [''b.png'', ''a.jpg''] [''a.jpg'' \<mapsto> File 1, ''b.png'' \<mapsto> File 2] =
     rename_images_in_folder (\<lambda>src dst. False) IsDirectory [''a.jpg'', ''b.png''] [''a.jpg'' \<mapsto> File 1, ''b.png'' \<mapsto> File 2]"
proof -
  have h1: "distinct [''b.png'', ''a.jpg'']" by simp
  have h2: "distinct [''a.jpg'', ''b.png'']" by simp
  have h3: "set [''b.png'', ''a.jpg''] = set [''a.jpg'', ''b.png'']" by auto
  show ?thesis
    using h1 h2 h3
      listing_order_irrelevant [OF h1 h2 h3, of "(\<lambda>src dst. False)" IsDirectory 1 False
        "[''a.jpg'' \<mapsto> File 1, ''b.png'' \<mapsto> File 2]"]
    by (intro conjI) (elim conjE, assumption)+
qed

section \<open>A path that is not a folder\<close>

text \<open>
  When the path is missing or is not a directory, neither variant makes a rename call or
  records an outcome, and the folder is as it was. The full variant reports the error of
  \<^verbatim>\<open>get_image_files\<close>. The minimal variant tests only \<^verbatim>\<open>folder.exists()\<close>: it reports a
  missing path, and on a path that is not a directory it ends with the
  \<^verbatim>\<open>NotADirectoryError\<close> of \<^verbatim>\<open>iterdir()\<close>, which nothing catches.
\<close>

lemma no_folder_no_renaming:
  assumes "st \<noteq> IsDirectory"
  shows "rename_images denied st listing start_number dry_run d =
           (ErrorReport (if st = Missing then FileNotFoundError else NotADirectoryError),
            \<lparr>fs = d, log = [], calls = [], renamed_count = 0\<rparr>) \<and>
         rename_images_in_folder denied st listing d =
           (if st = Missing then ErrorReport FileNotFoundError else Uncaught NotADirectoryError,
            \<lparr>fs = d, log = [], calls = [], renamed_count = 0\<rparr>)"
  using assms
  by (simp add: rename_images_def get_image_files_def rename_images_in_folder_def initial_def)

text \<open>
  Claim C7 asks that both variants report the error for a path that is missing or is not
  a directory. On a path that exists and is not a directory the full variant reports
  \<^verbatim>\<open>NotADirectoryError\<close>, but the minimal variant, which reports a missing path, prints
  nothing of its own and ends with the uncaught exception. No file is touched in either
  case.
\<close>

theorem minimal_variant_raises_on_non_directory:
  "rename_images (\<lambda>src dst. False) NotDirectory [] 1 False Map.empty =
     (ErrorReport NotADirectoryError,
      \<lparr>fs = Map.empty, log = [], calls = [], renamed_count = 0\<rparr>) \<and>
   rename_images_in_folder (\<lambda>src dst. False) Missing [] Map.empty =
     (ErrorReport FileNotFoundError,
      \<lparr>fs = Map.empty, log = [], calls = [], renamed_count = 0\<rparr>) \<and>
   rename_images_in_folder (\<lambda>src dst. False) NotDirectory [] Map.empty =
     (Uncaught NotADirectoryError,
      \<lparr>fs = Map.empty, log = [], calls = [], renamed_count = 0\<rparr>)"
  by (simp add: rename_images_def get_image_files_def rename_images_in_folder_def initial_def)

section \<open>Dry run\<close>

lemma fs_foldl_dry:
  "fs (foldl (rename_step denied True) s es) = fs s \<and>
   calls (foldl (rename_step denied True) s es) = calls s \<and>
   renamed_count (foldl (rename_step denied True) s es) = renamed_count s"
proof (induction es arbitrary: s)
  case Nil
  show ?case by simp
next
  case (Cons e es)
  have "fs (rename_step denied True s e) = fs s \<and> calls (rename_step denied True s e) = calls s
      \<and> renamed_count (rename_step denied True s e) = renamed_count s"
    by (cases e) (simp add: rename_step_def Let_def)
  with Cons.IH [of "rename_step denied True s e"] show ?case by simp
qed

lemma snd_rename_images_dry:
  "fs (snd (rename_images denied st listing start True d)) = d \<and>
   calls (snd (rename_images denied st listing start True d)) = []"
  by (simp add: rename_images_def Let_def fs_foldl_dry initial_def split: sum.splits)

lemma planned_rename_images_any:
  "map planned (log (snd (rename_images denied st listing start dry d))) =
   (case get_image_files st listing d of Inl err \<Rightarrow> []
    | Inr files \<Rightarrow> map (\<lambda>e. (snd e, new_name (fst e) (snd e))) (py_enumerate start files))"
proof (cases "get_image_files st listing d")
  case (Inl err)
  then show ?thesis by (simp add: rename_images_def initial_def)
next
  case (Inr files)
  from planned_rename_images [OF this] Inr show ?thesis by simp
qed

text \<open>
  Claim C4. A dry run makes no call of \<^verbatim>\<open>rename\<close> and leaves the folder as it was,
  whatever the input; the files it lists and the target names it gives them are those
  of the live run on the same input.
\<close>

theorem dry_run_leaves_folder:
  "fs (snd (rename_images denied st listing start_number True d)) = d \<and>
   calls (snd (rename_images denied st listing start_number True d)) = [] \<and>
   map planned (log (snd (rename_images denied st listing start_number True d))) =
     map planned (log (snd (rename_images denied st listing start_number False d)))"
  by (simp add: snd_rename_images_dry planned_rename_images_any)

text \<open>
  Claim C5 asks that the count of the last line of a dry run be the number of entries
  that are neither skipped as already named nor skipped as collisions. The count is
  computed a second time from the names alone and also counts the collisions: with
  \<^verbatim>\<open>00.jpg\<close> and \<^verbatim>\<open>0001.jpg\<close> in the folder the dry run shows one rename and one collision
  and reports 2, where the live run renames one file and reports 1.
\<close>

theorem dry_run_count_includes_collisions:
  "fst (rename_images (\<lambda>src dst. False) IsDirectory [''00.jpg'', ''0001.jpg''] 1 True [''00.jpg'' \<mapsto> File 1, ''0001.jpg'' \<mapsto> File 2]) = WouldRenameSummary 2 \<and>
   log (snd (rename_images (\<lambda>src dst. False) IsDirectory [''00.jpg'', ''0001.jpg''] 1 True [''00.jpg'' \<mapsto> File 1, ''0001.jpg'' \<mapsto> File 2])) =
     [(''00.jpg'', ''0001.jpg'', Collision), (''0001.jpg'', ''0002.jpg'', WouldRename)] \<and>
   log (snd (rename_images (\<lambda>src dst. False) IsDirectory [''00.jpg'', ''0001.jpg''] 1 False [''00.jpg'' \<mapsto> File 1, ''0001.jpg'' \<mapsto> File 2])) =
     [(''00.jpg'', ''0001.jpg'', Collision), (''0001.jpg'', ''0002.jpg'', Renamed)] \<and>
   fst (rename_images (\<lambda>src dst. False) IsDirectory [''00.jpg'', ''0001.jpg''] 1 False [''00.jpg'' \<mapsto> File 1, ''0001.jpg'' \<mapsto> File 2]) = RenamedSummary 1"
  by code_simp

section \<open>Collisions\<close>

text \<open>
  Claim C2, as stated for both variants, fails for the minimal one: it has no test of the
  target, calls \<^verbatim>\<open>rename\<close> and replaces the file that was there. With \<^verbatim>\<open>00.jpg\<close> and
  \<^verbatim>\<open>0001.jpg\<close> in the folder, \<^verbatim>\<open>00.jpg\<close> is renamed over \<^verbatim>\<open>0001.jpg\<close>, whose content
  is lost, and the result is renamed again to \<^verbatim>\<open>0002.jpg\<close>.
\<close>

theorem minimal_variant_replaces_existing_target:
  "map (\<lambda>n. (n, [''00.jpg'' \<mapsto> File 1, ''0001.jpg'' \<mapsto> File 2] n)) [''00.jpg'', ''0001.jpg'', ''0002.jpg''] =
     [(''00.jpg'', Some (File 1)), (''0001.jpg'', Some (File 2)), (''0002.jpg'', None)] \<and>
   log (snd (rename_images_in_folder (\<lambda>src dst. False) IsDirectory [''00.jpg'', ''0001.jpg''] [''00.jpg'' \<mapsto> File 1, ''0001.jpg'' \<mapsto> File 2])) =
     [(''00.jpg'', ''0001.jpg'', Renamed), (''0001.jpg'', ''0002.jpg'', Renamed)] \<and>
   map (\<lambda>n. (n, fs (snd (rename_images_in_folder (\<lambda>src dst. False) IsDirectory [''00.jpg'', ''0001.jpg''] [''00.jpg'' \<mapsto> File 1, ''0001.jpg'' \<mapsto> File 2])) n))
     [''00.jpg'', ''0001.jpg'', ''0002.jpg''] =
     [(''00.jpg'', None), (''0001.jpg'', None), (''0002.jpg'', Some (File 1))]"
  by code_simp

text \<open>
  Claim C2, amended: in the full variant, live or dry, an entry whose target name exists
  in the folder when its turn comes, under another name than its own, is skipped as a
  collision: no call of \<^verbatim>\<open>rename\<close> is made and the folder is unchanged. The state \<open>s\<close> is
  the state at that moment, after the entries before it.
\<close>

theorem collision_is_skipped:
  assumes "name \<noteq> new_name i name" and "fs s (new_name i name) \<noteq> None"
  shows "rename_step denied dry_run s (i, name) =
           s\<lparr>log := log s @ [(name, new_name i name, Collision)]\<rparr>"
  using assms by (simp add: rename_step_def Let_def exists_path_def)

theorem collision_is_skipped_witness:
  "''00.jpg'' \<noteq> new_name 1 ''00.jpg'' \<and>
   fs (initial [''00.jpg'' \<mapsto> File 1, ''0001.jpg'' \<mapsto> File 2]) (new_name 1 ''00.jpg'') \<noteq> None \<and>
   rename_step (\<lambda>src dst. False) False (initial [''00.jpg'' \<mapsto> File 1, ''0001.jpg'' \<mapsto> File 2]) (1, ''00.jpg'') =
     (initial [''00.jpg'' \<mapsto> File 1, ''0001.jpg'' \<mapsto> File 2])\<lparr>log := log (initial [''00.jpg'' \<mapsto> File 1, ''0001.jpg'' \<mapsto> File 2]) @ [(''00.jpg'', new_name 1 ''00.jpg'', Collision)]\<rparr>"
proof -
  have h1: "''00.jpg'' \<noteq> new_name 1 ''00.jpg''" by code_simp
  have h2: "fs (initial [''00.jpg'' \<mapsto> File 1, ''0001.jpg'' \<mapsto> File 2]) (new_name 1 ''00.jpg'') \<noteq> None" by code_simp
  show ?thesis
    using h1 h2 collision_is_skipped [OF h1 h2, of "(\<lambda>src dst. False)" False] by (intro conjI)
qed

section \<open>A rename that fails\<close>

lemma names_rename_step:
  "map fst (log (rename_step denied dry s e)) = map fst (log s) @ [snd e]"
  by (cases e) (simp add: rename_step_def Let_def split: sum.splits)

lemma names_simple_step:
  "map fst (log (simple_step denied s e)) = map fst (log s) @ [snd e]"
  by (cases e) (simp add: simple_step_def Let_def split: sum.splits)

lemma names_foldl_rename_step:
  "map fst (log (foldl (rename_step denied dry) s es)) = map fst (log s) @ map snd es"
  by (induction es arbitrary: s) (simp_all add: names_rename_step)

lemma names_foldl_simple_step:
  "map fst (log (foldl (simple_step denied) s es)) = map fst (log s) @ map snd es"
  by (induction es arbitrary: s) (simp_all add: names_simple_step)

lemma count_rename_step:
  "renamed_count (rename_step denied dry s e) + length (filter is_renamed (log s)) =
   renamed_count s + length (filter is_renamed (log (rename_step denied dry s e)))"
  by (cases e) (simp add: rename_step_def Let_def is_renamed_def split: sum.splits)

lemma count_foldl_rename_step:
  "renamed_count (foldl (rename_step denied dry) s es) + length (filter is_renamed (log s)) =
   renamed_count s + length (filter is_renamed (log (foldl (rename_step denied dry) s es)))"
proof (induction es arbitrary: s)
  case Nil
  show ?case by simp
next
  case (Cons e es)
  from Cons.IH [of "rename_step denied dry s e"] count_rename_step [of denied dry s e]
  show ?case by simp
qed

lemma failed_rename_step:
  assumes "name \<noteq> new_name i name" and "\<not> exists_path (fs s) (new_name i name)"
    and "path_rename denied name (new_name i name) (fs s) = Inl err"
  shows "rename_step denied False s (i, name) =
    s\<lparr>log := log s @ [(name, new_name i name, Failed)],
      calls := calls s @ [(name, new_name i name)]\<rparr>"
  using assms by (simp add: rename_step_def Let_def)

lemma failed_simple_step:
  assumes "name \<noteq> new_name i name"
    and "path_rename denied name (new_name i name) (fs s) = Inl err"
  shows "simple_step denied s (i, name) =
    s\<lparr>log := log s @ [(name, new_name i name, Failed)],
      calls := calls s @ [(name, new_name i name)]\<rparr>"
  using assms by (simp add: simple_step_def Let_def)

lemma renamed_rename_step:
  assumes "name \<noteq> new_name i name" and "fs s name = Some n"
    and "fs s (new_name i name) = None" and "\<not> denied name (new_name i name)"
  shows "rename_step denied False s (i, name) =
    s\<lparr>fs := (fs s)(name := None, new_name i name \<mapsto> n),
      log := log s @ [(name, new_name i name, Renamed)],
      calls := calls s @ [(name, new_name i name)],
      renamed_count := renamed_count s + 1\<rparr>"
  using assms by (simp add: rename_step_def Let_def exists_path_def path_rename_def)

lemma renamed_simple_step:
  assumes "name \<noteq> new_name i name" and "fs s name = Some n"
    and "fs s (new_name i name) \<noteq> Some Dir" and "\<not> denied name (new_name i name)"
  shows "simple_step denied s (i, name) =
    s\<lparr>fs := (fs s)(name := None, new_name i name \<mapsto> n),
      log := log s @ [(name, new_name i name, Renamed)],
      calls := calls s @ [(name, new_name i name)]\<rparr>"
  using assms by (simp add: simple_step_def Let_def path_rename_def)

lemma summary_rename_images:
  assumes "get_image_files IsDirectory listing d = Inr files" and "files \<noteq> []"
  shows "fst (rename_images denied IsDirectory listing start_number False d) =
    RenamedSummary (length (filter is_renamed
      (log (snd (rename_images denied IsDirectory listing start_number False d)))))"
proof -
  let ?s = "foldl (rename_step denied False) (initial d) (py_enumerate start_number files)"
  from count_foldl_rename_step [of denied False "initial d" "py_enumerate start_number files"]
  have "renamed_count ?s = length (filter is_renamed (log ?s))"
    by (simp add: initial_def)
  with assms show ?thesis
    by (simp add: rename_images_def Let_def)
qed

lemma summary_rename_images_in_folder:
  assumes "simple_image_files listing d \<noteq> []"
  shows "fst (rename_images_in_folder denied IsDirectory listing d) = Done"
  using assms by (simp add: rename_images_in_folder_def Let_def)

text \<open>
  Claim C6, as stated, fails in its last part: no summary reflects an entry as failed.
  The full variant prints the number of renamed files only, and prints 0 both for one
  file whose rename fails and for one file that is already named; the minimal variant
  prints \<^verbatim>\<open>Done!\<close> in both cases. Neither script keeps a count of failures.
\<close>

theorem summary_has_no_failed_count:
  "fst (rename_images (\<lambda>src dst. True) IsDirectory [''a.jpg''] 1 False [''a.jpg'' \<mapsto> File 1]) =
     RenamedSummary 0 \<and>
   log (snd (rename_images (\<lambda>src dst. True) IsDirectory [''a.jpg''] 1 False
     [''a.jpg'' \<mapsto> File 1])) = [(''a.jpg'', ''0001.jpg'', Failed)] \<and>
   fst (rename_images (\<lambda>src dst. True) IsDirectory [''0001.jpg''] 1 False
     [''0001.jpg'' \<mapsto> File 1]) = RenamedSummary 0 \<and>
   log (snd (rename_images (\<lambda>src dst. True) IsDirectory [''0001.jpg''] 1 False
     [''0001.jpg'' \<mapsto> File 1])) = [(''0001.jpg'', ''0001.jpg'', AlreadyNamed)] \<and>
   fst (rename_images_in_folder (\<lambda>src dst. True) IsDirectory [''a.jpg'']
     [''a.jpg'' \<mapsto> File 1]) = Done \<and>
   log (snd (rename_images_in_folder (\<lambda>src dst. True) IsDirectory [''a.jpg'']
     [''a.jpg'' \<mapsto> File 1])) = [(''a.jpg'', ''0001.jpg'', Failed)] \<and>
   fst (rename_images_in_folder (\<lambda>src dst. True) IsDirectory [''0001.jpg'']
     [''0001.jpg'' \<mapsto> File 1]) = Done \<and>
   log (snd (rename_images_in_folder (\<lambda>src dst. True) IsDirectory [''0001.jpg'']
     [''0001.jpg'' \<mapsto> File 1])) = [(''0001.jpg'', ''0001.jpg'', AlreadyNamed)]"
  by code_simp

text \<open>
  Claim C6, amended. When \<^verbatim>\<open>rename\<close> raises at an entry, the entry is recorded as failed
  and nothing else changes: the folder and the counter stay as they were, in the full
  variant (which reaches the call when the target name is free) and in the minimal one
  (which always does). The loop goes on with the entries after it, every entry of the
  list gets its outcome in order, and an entry after the failed one whose target is free
  and whose call is allowed is renamed in the folder. The summary of the full variant is
  the number of entries renamed, so a failed entry is not counted; the minimal variant
  ends with \<^verbatim>\<open>Done!\<close> and no count.
\<close>

theorem failed_rename_is_isolated:
  assumes "name \<noteq> new_name i name"
    and "path_rename denied name (new_name i name) (fs s) = Inl err"
  shows
    "(\<not> exists_path (fs s) (new_name i name) \<longrightarrow>
        rename_step denied False s (i, name) =
          s\<lparr>log := log s @ [(name, new_name i name, Failed)],
            calls := calls s @ [(name, new_name i name)]\<rparr> \<and>
        foldl (rename_step denied False) s ((i, name) # rest) =
          foldl (rename_step denied False)
            (s\<lparr>log := log s @ [(name, new_name i name, Failed)],
               calls := calls s @ [(name, new_name i name)]\<rparr>) rest) \<and>
     simple_step denied s (i, name) =
       s\<lparr>log := log s @ [(name, new_name i name, Failed)],
         calls := calls s @ [(name, new_name i name)]\<rparr> \<and>
     foldl (simple_step denied) s ((i, name) # rest) =
       foldl (simple_step denied)
         (s\<lparr>log := log s @ [(name, new_name i name, Failed)],
            calls := calls s @ [(name, new_name i name)]\<rparr>) rest \<and>
     (name2 \<noteq> new_name j name2 \<and> fs s name2 = Some n \<and> fs s (new_name j name2) = None \<and>
      \<not> denied name2 (new_name j name2) \<longrightarrow>
        rename_step denied False
          (s\<lparr>log := log s @ [(name, new_name i name, Failed)],
             calls := calls s @ [(name, new_name i name)]\<rparr>) (j, name2) =
          s\<lparr>fs := (fs s)(name2 := None, new_name j name2 \<mapsto> n),
            log := log s @ [(name, new_name i name, Failed), (name2, new_name j name2, Renamed)],
            calls := calls s @ [(name, new_name i name), (name2, new_name j name2)],
            renamed_count := renamed_count s + 1\<rparr> \<and>
        simple_step denied
          (s\<lparr>log := log s @ [(name, new_name i name, Failed)],
             calls := calls s @ [(name, new_name i name)]\<rparr>) (j, name2) =
          s\<lparr>fs := (fs s)(name2 := None, new_name j name2 \<mapsto> n),
            log := log s @ [(name, new_name i name, Failed), (name2, new_name j name2, Renamed)],
            calls := calls s @ [(name, new_name i name), (name2, new_name j name2)]\<rparr>) \<and>
     map fst (log (foldl (rename_step denied False) s ((i, name) # rest))) =
       map fst (log s) @ name # map snd rest \<and>
     map fst (log (foldl (simple_step denied) s ((i, name) # rest))) =
       map fst (log s) @ name # map snd rest \<and>
     (get_image_files IsDirectory listing d = Inr files \<and> files \<noteq> [] \<longrightarrow>
        fst (rename_images denied IsDirectory listing start_number False d) =
          RenamedSummary (length (filter is_renamed
            (log (snd (rename_images denied IsDirectory listing start_number False d)))))) \<and>
     (simple_image_files listing d \<noteq> [] \<longrightarrow>
        fst (rename_images_in_folder denied IsDirectory listing d) = Done)"
proof -
  let ?f = "s\<lparr>log := log s @ [(name, new_name i name, Failed)],
      calls := calls s @ [(name, new_name i name)]\<rparr>"
  have full: "rename_step denied False s (i, name) = ?f"
    if "\<not> exists_path (fs s) (new_name i name)"
    by (rule failed_rename_step [OF assms(1) that assms(2)])
  have simple: "simple_step denied s (i, name) = ?f"
    by (rule failed_simple_step [OF assms])
  have next_full: "rename_step denied False ?f (j, name2) =
      s\<lparr>fs := (fs s)(name2 := None, new_name j name2 \<mapsto> n),
        log := log s @ [(name, new_name i name, Failed), (name2, new_name j name2, Renamed)],
        calls := calls s @ [(name, new_name i name), (name2, new_name j name2)],
        renamed_count := renamed_count s + 1\<rparr>"
    if "name2 \<noteq> new_name j name2" "fs s name2 = Some n" "fs s (new_name j name2) = None"
      "\<not> denied name2 (new_name j name2)"
    using renamed_rename_step [of name2 j ?f n denied] that by simp
  have next_simple: "simple_step denied ?f (j, name2) =
      s\<lparr>fs := (fs s)(name2 := None, new_name j name2 \<mapsto> n),
        log := log s @ [(name, new_name i name, Failed), (name2, new_name j name2, Renamed)],
        calls := calls s @ [(name, new_name i name), (name2, new_name j name2)]\<rparr>"
    if "name2 \<noteq> new_name j name2" "fs s name2 = Some n" "fs s (new_name j name2) = None"
      "\<not> denied name2 (new_name j name2)"
    using renamed_simple_step [of name2 j ?f n denied] that by simp
  have names: "map fst (log (foldl (rename_step denied False) s ((i, name) # rest))) =
      map fst (log s) @ name # map snd rest"
    "map fst (log (foldl (simple_step denied) s ((i, name) # rest))) =
      map fst (log s) @ name # map snd rest"
    by (simp_all only: names_foldl_rename_step names_foldl_simple_step list.map snd_conv)
  show ?thesis
    apply (intro conjI impI)
            apply (erule full)
           apply (simp add: full)
          apply (rule simple)
         apply (simp add: simple)
        apply (elim conjE, erule (3) next_full)
       apply (elim conjE, erule (3) next_simple)
      apply (rule names(1))
     apply (rule names(2))
    apply (elim conjE, erule (1) summary_rename_images)
    apply (erule summary_rename_images_in_folder)
    done
qed

theorem failed_rename_is_isolated_witness:
  "''b.jpg'' \<noteq> new_name 2 ''b.jpg'' \<and>
   path_rename (\<lambda>src dst. src = ''b.jpg'') ''b.jpg'' (new_name 2 ''b.jpg'') (fs (rename_step (\<lambda>src dst. src = ''b.jpg'') False (initial [''a.jpg'' \<mapsto> File 1, ''b.jpg'' \<mapsto> File 2, ''c.jpg'' \<mapsto> File 3, ''d.jpg'' \<mapsto> File 4, ''e.jpg'' \<mapsto> File 5]) (1, ''a.jpg''))) = Inl OSError \<and>
   \<not> exists_path (fs (rename_step (\<lambda>src dst. src = ''b.jpg'') False (initial [''a.jpg'' \<mapsto> File 1, ''b.jpg'' \<mapsto> File 2, ''c.jpg'' \<mapsto> File 3, ''d.jpg'' \<mapsto> File 4, ''e.jpg'' \<mapsto> File 5]) (1, ''a.jpg''))) (new_name 2 ''b.jpg'') \<and>
   ''c.jpg'' \<noteq> new_name 3 ''c.jpg'' \<and>
   fs (rename_step (\<lambda>src dst. src = ''b.jpg'') False (initial [''a.jpg'' \<mapsto> File 1, ''b.jpg'' \<mapsto> File 2, ''c.jpg'' \<mapsto> File 3, ''d.jpg'' \<mapsto> File 4, ''e.jpg'' \<mapsto> File 5]) (1, ''a.jpg'')) ''c.jpg'' = Some (File 3) \<and>
   fs (rename_step (\<lambda>src dst. src = ''b.jpg'') False (initial [''a.jpg'' \<mapsto> File 1, ''b.jpg'' \<mapsto> File 2, ''c.jpg'' \<mapsto> File 3, ''d.jpg'' \<mapsto> File 4, ''e.jpg'' \<mapsto> File 5]) (1, ''a.jpg'')) (new_name 3 ''c.jpg'') = None \<and>
   \<not> (\<lambda>src dst. src = ''b.jpg'') ''c.jpg'' (new_name 3 ''c.jpg'') \<and>
   get_image_files IsDirectory [''a.jpg'', ''b.jpg'', ''c.jpg'', ''d.jpg'', ''e.jpg''] [''a.jpg'' \<mapsto> File 1, ''b.jpg'' \<mapsto> File 2, ''c.jpg'' \<mapsto> File 3, ''d.jpg'' \<mapsto> File 4, ''e.jpg'' \<mapsto> File 5] = Inr [''a.jpg'', ''b.jpg'', ''c.jpg'', ''d.jpg'', ''e.jpg''] \<and>
   [''a.jpg'', ''b.jpg'', ''c.jpg'', ''d.jpg'', ''e.jpg''] \<noteq> [] \<and>
   simple_image_files [''a.jpg'', ''b.jpg'', ''c.jpg'', ''d.jpg'', ''e.jpg''] [''a.jpg'' \<mapsto> File 1, ''b.jpg'' \<mapsto> File 2, ''c.jpg'' \<mapsto> File 3, ''d.jpg'' \<mapsto> File 4, ''e.jpg'' \<mapsto> File 5] \<noteq> [] \<and>
   map (\<lambda>e. snd (snd e)) (log (foldl (rename_step (\<lambda>src dst. src = ''b.jpg'') False) (rename_step (\<lambda>src dst. src = ''b.jpg'') False (initial [''a.jpg'' \<mapsto> File 1, ''b.jpg'' \<mapsto> File 2, ''c.jpg'' \<mapsto> File 3, ''d.jpg'' \<mapsto> File 4, ''e.jpg'' \<mapsto> File 5]) (1, ''a.jpg'')) ((2, ''b.jpg'') # [(3, ''c.jpg''), (4, ''d.jpg''), (5, ''e.jpg'')]))) = [Renamed, Failed, Renamed, Renamed, Renamed] \<and>
   map (\<lambda>e. snd (snd e)) (log (foldl (simple_step (\<lambda>src dst. src = ''b.jpg'')) (rename_step (\<lambda>src dst. src = ''b.jpg'') False (initial [''a.jpg'' \<mapsto> File 1, ''b.jpg'' \<mapsto> File 2, ''c.jpg'' \<mapsto> File 3, ''d.jpg'' \<mapsto> File 4, ''e.jpg'' \<mapsto> File 5]) (1, ''a.jpg'')) ((2, ''b.jpg'') # [(3, ''c.jpg''), (4, ''d.jpg''), (5, ''e.jpg'')]))) = [Renamed, Failed, Renamed, Renamed, Renamed] \<and>
   fs (rename_step (\<lambda>src dst. src = ''b.jpg'') False ((rename_step (\<lambda>src dst. src = ''b.jpg'') False (initial [''a.jpg'' \<mapsto> File 1, ''b.jpg'' \<mapsto> File 2, ''c.jpg'' \<mapsto> File 3, ''d.jpg'' \<mapsto> File 4, ''e.jpg'' \<mapsto> File 5]) (1, ''a.jpg''))\<lparr>log := log (rename_step (\<lambda>src dst. src = ''b.jpg'') False (initial [''a.jpg'' \<mapsto> File 1, ''b.jpg'' \<mapsto> File 2, ''c.jpg'' \<mapsto> File 3, ''d.jpg'' \<mapsto> File 4, ''e.jpg'' \<mapsto> File 5]) (1, ''a.jpg'')) @ [(''b.jpg'', new_name 2 ''b.jpg'', Failed)], calls := calls (rename_step (\<lambda>src dst. src = ''b.jpg'') False (initial [''a.jpg'' \<mapsto> File 1, ''b.jpg'' \<mapsto> File 2, ''c.jpg'' \<mapsto> File 3, ''d.jpg'' \<mapsto> File 4, ''e.jpg'' \<mapsto> File 5]) (1, ''a.jpg'')) @ [(''b.jpg'', new_name 2 ''b.jpg'')]\<rparr>) (3, ''c.jpg'')) (new_name 3 ''c.jpg'') = Some (File 3) \<and>
   fs (simple_step (\<lambda>src dst. src = ''b.jpg'') ((rename_step (\<lambda>src dst. src = ''b.jpg'') False (initial [''a.jpg'' \<mapsto> File 1, ''b.jpg'' \<mapsto> File 2, ''c.jpg'' \<mapsto> File 3, ''d.jpg'' \<mapsto> File 4, ''e.jpg'' \<mapsto> File 5]) (1, ''a.jpg''))\<lparr>log := log (rename_step (\<lambda>src dst. src = ''b.jpg'') False (initial [''a.jpg'' \<mapsto> File 1, ''b.jpg'' \<mapsto> File 2, ''c.jpg'' \<mapsto> File 3, ''d.jpg'' \<mapsto> File 4, ''e.jpg'' \<mapsto> File 5]) (1, ''a.jpg'')) @ [(''b.jpg'', new_name 2 ''b.jpg'', Failed)], calls := calls (rename_step (\<lambda>src dst. src = ''b.jpg'') False (initial [''a.jpg'' \<mapsto> File 1, ''b.jpg'' \<mapsto> File 2, ''c.jpg'' \<mapsto> File 3, ''d.jpg'' \<mapsto> File 4, ''e.jpg'' \<mapsto> File 5]) (1, ''a.jpg'')) @ [(''b.jpg'', new_name 2 ''b.jpg'')]\<rparr>) (3, ''c.jpg'')) (new_name 3 ''c.jpg'') = Some (File 3) \<and>
   new_name 3 ''c.jpg'' = ''0003.jpg'' \<and>
   fst (rename_images (\<lambda>src dst. src = ''b.jpg'') IsDirectory [''a.jpg'', ''b.jpg'', ''c.jpg'', ''d.jpg'', ''e.jpg''] 1 False [''a.jpg'' \<mapsto> File 1, ''b.jpg'' \<mapsto> File 2, ''c.jpg'' \<mapsto> File 3, ''d.jpg'' \<mapsto> File 4, ''e.jpg'' \<mapsto> File 5]) = RenamedSummary 4 \<and>
   fst (rename_images_in_folder (\<lambda>src dst. src = ''b.jpg'') IsDirectory [''a.jpg'', ''b.jpg'', ''c.jpg'', ''d.jpg'', ''e.jpg''] [''a.jpg'' \<mapsto> File 1, ''b.jpg'' \<mapsto> File 2, ''c.jpg'' \<mapsto> File 3, ''d.jpg'' \<mapsto> File 4, ''e.jpg'' \<mapsto> File 5]) = Done \<and>
   ''a.jpg'' \<noteq> new_name 1 ''a.jpg'' \<and>
   path_rename (\<lambda>src dst. False) ''a.jpg'' (new_name 1 ''a.jpg'') (fs (initial [''a.jpg'' \<mapsto> File 1, ''0001.jpg'' \<mapsto> Dir])) = Inl OSError \<and>
   simple_step (\<lambda>src dst. False) (initial [''a.jpg'' \<mapsto> File 1, ''0001.jpg'' \<mapsto> Dir]) (1, ''a.jpg'') = (initial [''a.jpg'' \<mapsto> File 1, ''0001.jpg'' \<mapsto> Dir])\<lparr>log := log (initial [''a.jpg'' \<mapsto> File 1, ''0001.jpg'' \<mapsto> Dir]) @ [(''a.jpg'', new_name 1 ''a.jpg'', Failed)], calls := calls (initial [''a.jpg'' \<mapsto> File 1, ''0001.jpg'' \<mapsto> Dir]) @ [(''a.jpg'', new_name 1 ''a.jpg'')]\<rparr>"
proof -
  let ?d = "[''a.jpg'' \<mapsto> File 1, ''b.jpg'' \<mapsto> File 2, ''c.jpg'' \<mapsto> File 3, ''d.jpg'' \<mapsto> File 4, ''e.jpg'' \<mapsto> File 5]"
  let ?l = "[''a.jpg'', ''b.jpg'', ''c.jpg'', ''d.jpg'', ''e.jpg'']"
  let ?den = "(\<lambda>src dst. src = ''b.jpg'')"
  let ?nev = "(\<lambda>src dst. False)"
  let ?s = "(rename_step (\<lambda>src dst. src = ''b.jpg'') False (initial [''a.jpg'' \<mapsto> File 1, ''b.jpg'' \<mapsto> File 2, ''c.jpg'' \<mapsto> File 3, ''d.jpg'' \<mapsto> File 4, ''e.jpg'' \<mapsto> File 5]) (1, ''a.jpg''))"
  let ?sf = "?s\<lparr>log := log ?s @ [(''b.jpg'', new_name 2 ''b.jpg'', Failed)], calls := calls ?s @ [(''b.jpg'', new_name 2 ''b.jpg'')]\<rparr>"
  let ?rest = "[(3, ''c.jpg''), (4, ''d.jpg''), (5, ''e.jpg'')]"
  let ?dirf = "[''a.jpg'' \<mapsto> File 1, ''0001.jpg'' \<mapsto> Dir]"
  have h1: "''b.jpg'' \<noteq> new_name 2 ''b.jpg''" by code_simp
  have f: "fs ?s ''b.jpg'' = Some (File 2)" by code_simp
  have h2: "path_rename ?den ''b.jpg'' (new_name 2 ''b.jpg'') (fs ?s) = Inl OSError"
    unfolding path_rename_def f by simp
  have h3: "\<not> exists_path (fs ?s) (new_name 2 ''b.jpg'')" by code_simp
  have g1: "''c.jpg'' \<noteq> new_name 3 ''c.jpg''" by code_simp
  have g2: "fs ?s ''c.jpg'' = Some (File 3)" by code_simp
  have g3: "fs ?s (new_name 3 ''c.jpg'') = None" by code_simp
  have g4: "\<not> ?den ''c.jpg'' (new_name 3 ''c.jpg'')" by simp
  have i1: "get_image_files IsDirectory ?l ?d = Inr ?l" by code_simp
  have i2: "?l \<noteq> []" by simp
  have i3: "simple_image_files ?l ?d \<noteq> []" by code_simp
  have n3: "new_name 3 ''c.jpg'' = ''0003.jpg''" by code_simp
  note t = failed_rename_is_isolated [OF h1 h2, where rest = ?rest and ?name2.0 = "''c.jpg''"
      and j = 3 and n = "File 3" and listing = ?l and d = ?d and files = ?l and start_number = 1]
  from t h3 have a: "foldl (rename_step ?den False) ?s ((2, ''b.jpg'') # ?rest) =
      foldl (rename_step ?den False) ?sf ?rest"
    by blast
  from t have a': "foldl (simple_step ?den) ?s ((2, ''b.jpg'') # ?rest) =
      foldl (simple_step ?den) ?sf ?rest"
    by blast
  have b: "map (\<lambda>e. snd (snd e)) (log (foldl (rename_step ?den False) ?sf ?rest)) = [Renamed, Failed, Renamed, Renamed, Renamed]"
    by code_simp
  have b': "map (\<lambda>e. snd (snd e)) (log (foldl (simple_step ?den) ?sf ?rest)) = [Renamed, Failed, Renamed, Renamed, Renamed]"
    by code_simp
  have c1: "map (\<lambda>e. snd (snd e)) (log (foldl (rename_step ?den False) ?s ((2, ''b.jpg'') # ?rest))) = [Renamed, Failed, Renamed, Renamed, Renamed]" using b by (simp only: a)
  have c2: "map (\<lambda>e. snd (snd e)) (log (foldl (simple_step ?den) ?s ((2, ''b.jpg'') # ?rest))) = [Renamed, Failed, Renamed, Renamed, Renamed]" using b' by (simp only: a')
  from t g1 g2 g3 g4 have e: "rename_step ?den False ?sf (3, ''c.jpg'') =
      ?s\<lparr>fs := (fs ?s)(''c.jpg'' := None, new_name 3 ''c.jpg'' \<mapsto> File 3),
        log := log ?s @ [(''b.jpg'', new_name 2 ''b.jpg'', Failed), (''c.jpg'', new_name 3 ''c.jpg'', Renamed)],
        calls := calls ?s @ [(''b.jpg'', new_name 2 ''b.jpg''), (''c.jpg'', new_name 3 ''c.jpg'')],
        renamed_count := renamed_count ?s + 1\<rparr>"
    by blast
  from t g1 g2 g3 g4 have e': "simple_step ?den ?sf (3, ''c.jpg'') =
      ?s\<lparr>fs := (fs ?s)(''c.jpg'' := None, new_name 3 ''c.jpg'' \<mapsto> File 3),
        log := log ?s @ [(''b.jpg'', new_name 2 ''b.jpg'', Failed), (''c.jpg'', new_name 3 ''c.jpg'', Renamed)],
        calls := calls ?s @ [(''b.jpg'', new_name 2 ''b.jpg''), (''c.jpg'', new_name 3 ''c.jpg'')]\<rparr>"
    by blast
  have c3: "fs (rename_step ?den False ?sf (3, ''c.jpg'')) (new_name 3 ''c.jpg'') = Some (File 3)" unfolding e by simp
  have c4: "fs (simple_step ?den ?sf (3, ''c.jpg'')) (new_name 3 ''c.jpg'') = Some (File 3)" unfolding e' by simp
  from t i1 i2 have s4: "fst (rename_images ?den IsDirectory ?l 1 False ?d) =
      RenamedSummary (length (filter is_renamed
        (log (snd (rename_images ?den IsDirectory ?l 1 False ?d)))))"
    by blast
  have k4: "length (filter is_renamed (log (snd (rename_images ?den IsDirectory ?l 1 False ?d)))) = 4"
    by code_simp
  have c5: "fst (rename_images ?den IsDirectory ?l 1 False ?d) = RenamedSummary 4" using s4 by (simp only: k4)
  from t i3 have c6: "fst (rename_images_in_folder ?den IsDirectory ?l ?d) = Done" by blast
  have v1: "''a.jpg'' \<noteq> new_name 1 ''a.jpg''" by code_simp
  have vf: "fs (initial ?dirf) ''a.jpg'' = Some (File 1)" by code_simp
  have vn: "new_name 1 ''a.jpg'' = ''0001.jpg''" by code_simp
  have vd: "fs (initial ?dirf) ''0001.jpg'' = Some Dir" by code_simp
  have v2: "path_rename ?nev ''a.jpg'' (new_name 1 ''a.jpg'') (fs (initial ?dirf)) = Inl OSError"
    unfolding path_rename_def vf vn vd by simp
  from failed_rename_is_isolated [OF v1 v2, where rest = "[]"]
  have v3: "simple_step ?nev (initial ?dirf) (1, ''a.jpg'') = (initial ?dirf)\<lparr>log := log (initial ?dirf) @ [(''a.jpg'', new_name 1 ''a.jpg'', Failed)], calls := calls (initial ?dirf) @ [(''a.jpg'', new_name 1 ''a.jpg'')]\<rparr>"
    by blast
  show ?thesis
    using h1 h2 h3 g1 g2 g3 g4 i1 i2 i3 c1 c2 c3 c4 n3 c5 c6 v1 v2 v3 by (intro conjI)
qed

section \<open>Extensions in upper case\<close>

lemma lower_length [simp]: "length (lower s) = length s"
  by (simp add: lower_def)

lemma suffix_is_tail: "\<exists>stem. name = stem @ suffix name"
proof (cases "rfind CHR ''.'' name")
  case None
  then show ?thesis by (simp add: suffix_def)
next
  case (Some i)
  show ?thesis
  proof (cases "0 < i \<and> i + 1 < length name")
    case True
    with Some have "suffix name = drop i name" by (simp add: suffix_def)
    then have "name = take i name @ suffix name" by simp
    then show ?thesis ..
  next
    case False
    with Some have "suffix name = []" by (auto simp: suffix_def)
    then show ?thesis by simp
  qed
qed

lemma upper_suffix_not_named:
  assumes "lower (suffix name) \<noteq> suffix name"
  shows "name \<noteq> new_name i name"
proof
  assume eq: "name = new_name i name"
  obtain stem where stem: "name = stem @ suffix name"
    using suffix_is_tail by blast
  from eq stem have "stem @ suffix name = pad4 i @ lower (suffix name)"
    by (simp add: new_name_def)
  then have "suffix name = lower (suffix name)"
    by (simp add: append_eq_append_conv)
  with assms show False by simp
qed

lemma outcome_rename_step:
  "\<exists>out. log (rename_step denied dry_run s (i, name)) = log s @ [(name, new_name i name, out)] \<and>
     (out = AlreadyNamed \<longleftrightarrow> name = new_name i name)"
  by (simp add: rename_step_def Let_def split: sum.splits)

lemma outcome_simple_step:
  "\<exists>out. log (simple_step denied s (i, name)) = log s @ [(name, new_name i name, out)] \<and>
     (out = AlreadyNamed \<longleftrightarrow> name = new_name i name)"
  by (simp add: simple_step_def Let_def split: sum.splits)

text \<open>
  Claim C10, as stated, fails where the lower-case name exists: with \<^verbatim>\<open>0001.JPG\<close> and
  \<^verbatim>\<open>0001.jpg\<close> in the folder, the full variant skips \<^verbatim>\<open>0001.JPG\<close> as a collision with
  \<^verbatim>\<open>0001.jpg\<close> and does not rename it.
\<close>

theorem upper_case_extension_skipped_as_collision:
  "log (snd (rename_images (\<lambda>src dst. False) IsDirectory [''0001.jpg'', ''0001.JPG''] 1 False
      [''0001.JPG'' \<mapsto> File 1, ''0001.jpg'' \<mapsto> File 2])) =
     [(''0001.JPG'', ''0001.jpg'', Collision), (''0001.jpg'', ''0002.jpg'', Renamed)] \<and>
   map (fs (snd (rename_images (\<lambda>src dst. False) IsDirectory [''0001.jpg'', ''0001.JPG''] 1 False
      [''0001.JPG'' \<mapsto> File 1, ''0001.jpg'' \<mapsto> File 2])))
     [''0001.JPG'', ''0001.jpg'', ''0002.jpg''] = [Some (File 1), None, Some (File 2)] \<and>
   calls (snd (rename_images (\<lambda>src dst. False) IsDirectory [''0001.jpg'', ''0001.JPG''] 1 False
      [''0001.JPG'' \<mapsto> File 1, ''0001.jpg'' \<mapsto> File 2])) = [(''0001.jpg'', ''0002.jpg'')]"
  by code_simp

text \<open>
  Claim C10, amended. A file whose extension has an upper-case letter never equals its
  target name, which carries the extension in lower case, so in neither variant is it
  skipped as already named (\<^verbatim>\<open>0001.JPG\<close> at number 1 has the target \<^verbatim>\<open>0001.jpg\<close>). Where
  that target is free and the operating system allows the call, both variants rename the
  file to it; where the target exists, the full variant skips the file as a collision.
\<close>

theorem upper_case_extension_not_already_named:
  assumes "lower (suffix name) \<noteq> suffix name"
  shows "name \<noteq> new_name i name \<and>
    (\<exists>out. out \<noteq> AlreadyNamed \<and>
       log (rename_step denied dry_run s (i, name)) = log s @ [(name, new_name i name, out)]) \<and>
    (\<exists>out. out \<noteq> AlreadyNamed \<and>
       log (simple_step denied s (i, name)) = log s @ [(name, new_name i name, out)]) \<and>
    (fs s name = Some n \<and> fs s (new_name i name) = None \<and> \<not> denied name (new_name i name) \<longrightarrow>
       rename_step denied False s (i, name) =
         s\<lparr>fs := (fs s)(name := None, new_name i name \<mapsto> n),
           log := log s @ [(name, new_name i name, Renamed)],
           calls := calls s @ [(name, new_name i name)],
           renamed_count := renamed_count s + 1\<rparr> \<and>
       simple_step denied s (i, name) =
         s\<lparr>fs := (fs s)(name := None, new_name i name \<mapsto> n),
           log := log s @ [(name, new_name i name, Renamed)],
           calls := calls s @ [(name, new_name i name)]\<rparr>) \<and>
    (fs s (new_name i name) \<noteq> None \<longrightarrow>
       rename_step denied dry_run s (i, name) =
         s\<lparr>log := log s @ [(name, new_name i name, Collision)]\<rparr>)"
proof -
  have ne: "name \<noteq> new_name i name"
    by (rule upper_suffix_not_named [OF assms])
  have o1: "\<exists>out. out \<noteq> AlreadyNamed \<and>
       log (rename_step denied dry_run s (i, name)) = log s @ [(name, new_name i name, out)]"
    using outcome_rename_step [of denied dry_run s i name] ne by auto
  have o2: "\<exists>out. out \<noteq> AlreadyNamed \<and>
       log (simple_step denied s (i, name)) = log s @ [(name, new_name i name, out)]"
    using outcome_simple_step [of denied s i name] ne by auto
  have r: "rename_step denied False s (i, name) =
         s\<lparr>fs := (fs s)(name := None, new_name i name \<mapsto> n),
           log := log s @ [(name, new_name i name, Renamed)],
           calls := calls s @ [(name, new_name i name)],
           renamed_count := renamed_count s + 1\<rparr> \<and>
       simple_step denied s (i, name) =
         s\<lparr>fs := (fs s)(name := None, new_name i name \<mapsto> n),
           log := log s @ [(name, new_name i name, Renamed)],
           calls := calls s @ [(name, new_name i name)]\<rparr>"
    if "fs s name = Some n \<and> fs s (new_name i name) = None \<and> \<not> denied name (new_name i name)"
    using that ne
    by (simp add: rename_step_def simple_step_def Let_def exists_path_def path_rename_def)
  have c: "rename_step denied dry_run s (i, name) =
         s\<lparr>log := log s @ [(name, new_name i name, Collision)]\<rparr>"
    if "fs s (new_name i name) \<noteq> None"
    using that ne by (simp add: rename_step_def Let_def exists_path_def)
  from ne o1 o2 r c show ?thesis by blast
qed

theorem upper_case_extension_not_already_named_witness:
  "lower (suffix ''0001.JPG'') \<noteq> suffix ''0001.JPG'' \<and>
   new_name 1 ''0001.JPG'' = ''0001.jpg'' \<and>
   ''0001.JPG'' \<noteq> new_name 1 ''0001.JPG'' \<and>
   fs (initial [''0001.JPG'' \<mapsto> File 7]) ''0001.JPG'' = Some (File 7) \<and>
   fs (initial [''0001.JPG'' \<mapsto> File 7]) (new_name 1 ''0001.JPG'') = None \<and>
   \<not> (\<lambda>src dst. False) ''0001.JPG'' (new_name 1 ''0001.JPG'') \<and>
   rename_step (\<lambda>src dst. False) False (initial [''0001.JPG'' \<mapsto> File 7]) (1, ''0001.JPG'') = (initial [''0001.JPG'' \<mapsto> File 7])\<lparr>fs := (fs (initial [''0001.JPG'' \<mapsto> File 7]))(''0001.JPG'' := None, new_name 1 ''0001.JPG'' \<mapsto> File 7), log := log (initial [''0001.JPG'' \<mapsto> File 7]) @ [(''0001.JPG'', new_name 1 ''0001.JPG'', Renamed)], calls := calls (initial [''0001.JPG'' \<mapsto> File 7]) @ [(''0001.JPG'', new_name 1 ''0001.JPG'')], renamed_count := renamed_count (initial [''0001.JPG'' \<mapsto> File 7]) + 1\<rparr> \<and>
   simple_step (\<lambda>src dst. False) (initial [''0001.JPG'' \<mapsto> File 7]) (1, ''0001.JPG'') = (initial [''0001.JPG'' \<mapsto> File 7])\<lparr>fs := (fs (initial [''0001.JPG'' \<mapsto> File 7]))(''0001.JPG'' := None, new_name 1 ''0001.JPG'' \<mapsto> File 7), log := log (initial [''0001.JPG'' \<mapsto> File 7]) @ [(''0001.JPG'', new_name 1 ''0001.JPG'', Renamed)], calls := calls (initial [''0001.JPG'' \<mapsto> File 7]) @ [(''0001.JPG'', new_name 1 ''0001.JPG'')]\<rparr> \<and>
   fs (initial [''0001.JPG'' \<mapsto> File 1, ''0001.jpg'' \<mapsto> File 2]) (new_name 1 ''0001.JPG'') \<noteq> None \<and>
   rename_step (\<lambda>src dst. False) False (initial [''0001.JPG'' \<mapsto> File 1, ''0001.jpg'' \<mapsto> File 2]) (1, ''0001.JPG'') = (initial [''0001.JPG'' \<mapsto> File 1, ''0001.jpg'' \<mapsto> File 2])\<lparr>log := log (initial [''0001.JPG'' \<mapsto> File 1, ''0001.jpg'' \<mapsto> File 2]) @ [(''0001.JPG'', new_name 1 ''0001.JPG'', Collision)]\<rparr>"
proof -
  let ?one = "(initial [''0001.JPG'' \<mapsto> File 7])"
  let ?two = "(initial [''0001.JPG'' \<mapsto> File 1, ''0001.jpg'' \<mapsto> File 2])"
  have h: "lower (suffix ''0001.JPG'') \<noteq> suffix ''0001.JPG''" by code_simp
  have n: "new_name 1 ''0001.JPG'' = ''0001.jpg''" by code_simp
  have a1: "fs ?one ''0001.JPG'' = Some (File 7)" by code_simp
  have a2: "fs ?one (new_name 1 ''0001.JPG'') = None" by code_simp
  have a3: "\<not> (\<lambda>src dst. False) ''0001.JPG'' (new_name 1 ''0001.JPG'')" by simp
  have b1: "fs ?two (new_name 1 ''0001.JPG'') \<noteq> None" by code_simp
  note t1 = upper_case_extension_not_already_named [OF h, where i = 1 and s = ?one
      and n = "File 7" and denied = "(\<lambda>src dst. False)"]
  note t2 = upper_case_extension_not_already_named [OF h, where i = 1 and s = ?two
      and denied = "(\<lambda>src dst. False)" and dry_run = False]
  from t1 have k0: "''0001.JPG'' \<noteq> new_name 1 ''0001.JPG''" by blast
  from t1 a1 a2 a3 have k1: "rename_step (\<lambda>src dst. False) False ?one (1, ''0001.JPG'') = ?one\<lparr>fs := (fs ?one)(''0001.JPG'' := None, new_name 1 ''0001.JPG'' \<mapsto> File 7), log := log ?one @ [(''0001.JPG'', new_name 1 ''0001.JPG'', Renamed)], calls := calls ?one @ [(''0001.JPG'', new_name 1 ''0001.JPG'')], renamed_count := renamed_count ?one + 1\<rparr>"
    by blast
  from t1 a1 a2 a3 have k2: "simple_step (\<lambda>src dst. False) ?one (1, ''0001.JPG'') = ?one\<lparr>fs := (fs ?one)(''0001.JPG'' := None, new_name 1 ''0001.JPG'' \<mapsto> File 7), log := log ?one @ [(''0001.JPG'', new_name 1 ''0001.JPG'', Renamed)], calls := calls ?one @ [(''0001.JPG'', new_name 1 ''0001.JPG'')]\<rparr>"
    by blast
  from t2 b1 have k3: "rename_step (\<lambda>src dst. False) False ?two (1, ''0001.JPG'') = ?two\<lparr>log := log ?two @ [(''0001.JPG'', new_name 1 ''0001.JPG'', Collision)]\<rparr>"
    by blast
  show ?thesis
    using h n k0 a1 a2 a3 k1 k2 b1 k3 by (intro conjI)
qed

section \<open>The command line\<close>

lemma py_index_None: "y \<notin> set xs \<Longrightarrow> py_index xs y = None"
  by (induction xs) auto

lemma py_index_mem: "y \<in> set xs \<Longrightarrow> py_index xs y \<noteq> None"
  by (induction xs) auto

lemma start_number_usage:
  assumes "py_index argv ''--start-number'' = Some k"
    and "length argv \<le> k + 1 \<or> py_int (argv ! (k + 1)) = None"
  shows "\<exists>u. \<forall>denied lookup. main py_int denied lookup argv = Exited 1 u"
proof -
  have m: "''--start-number'' \<in> set argv"
    using assms(1) py_index_None [of "''--start-number''" argv] by auto
  show ?thesis
  proof (cases "length argv < 2")
    case True
    then show ?thesis by (simp add: main_def)
  next
    case False
    show ?thesis
    proof (cases "k + 1 < length argv")
      case True
      with assms(2) have "py_int (argv ! (k + 1)) = None" by simp
      with False True m assms(1) show ?thesis
        by (simp add: main_def Let_def)
    next
      case no: False
      with False m assms(1) show ?thesis
        by (simp add: main_def Let_def)
    qed
  qed
qed

lemma start_number_default:
  assumes "''--start-number'' \<notin> set argv" and "2 \<le> length argv"
    and "lookup (argv ! 1) = (st, listing, d)"
  shows "main py_int denied lookup argv =
     Completed (rename_images denied st listing 1 (''--dry-run'' \<in> set argv) d)"
  using assms by (simp add: main_def Let_def)

text \<open>
  Claim C8. When \<^verbatim>\<open>--start-number\<close> is the last argument, or the argument after its first
  occurrence is no integer, \<open>main\<close> exits with status 1 and a message, whatever the file
  system holds: \<^verbatim>\<open>rename_images\<close> is never called. Without the flag the run starts at 1.
\<close>

theorem start_number_parsing:
  "(py_index argv ''--start-number'' = Some k \<and>
      (length argv \<le> k + 1 \<or> py_int (argv ! (k + 1)) = None) \<longrightarrow>
      (\<exists>u. \<forall>denied lookup. main py_int denied lookup argv = Exited 1 u)) \<and>
   (''--start-number'' \<notin> set argv \<and> 2 \<le> length argv \<and>
      lookup (argv ! 1) = (st, listing, d) \<longrightarrow>
      main py_int denied lookup argv =
        Completed (rename_images denied st listing 1 (''--dry-run'' \<in> set argv) d))"
  using start_number_usage [of argv k py_int]
    start_number_default [of argv lookup st listing d py_int denied]
  by blast

theorem start_number_parsing_witness:
  "py_index [''prog'', ''photos'', ''--start-number''] ''--start-number'' = Some 2 \<and>
   length [''prog'', ''photos'', ''--start-number''] \<le> 2 + 1 \<and>
   (\<exists>u. \<forall>denied lookup.
      main (\<lambda>s. if s = ''100'' then Some 100 else None) denied lookup
        [''prog'', ''photos'', ''--start-number''] = Exited 1 u) \<and>
   py_index [''prog'', ''photos'', ''--start-number'', ''abc'', ''--dry-run''] ''--start-number'' = Some 2 \<and>
   (\<lambda>s. if s = ''100'' then Some (100::int) else None)
     ([''prog'', ''photos'', ''--start-number'', ''abc'', ''--dry-run''] ! (2 + 1)) = None \<and>
   (\<exists>u. \<forall>denied lookup.
      main (\<lambda>s. if s = ''100'' then Some 100 else None) denied lookup
        [''prog'', ''photos'', ''--start-number'', ''abc'', ''--dry-run''] = Exited 1 u) \<and>
   ''--start-number'' \<notin> set [''prog'', ''photos'', ''--dry-run''] \<and>
   2 \<le> length [''prog'', ''photos'', ''--dry-run''] \<and>
   (\<lambda>p. (IsDirectory, [''a.jpg''], [''a.jpg'' \<mapsto> File 1])) ([''prog'', ''photos'', ''--dry-run''] ! 1) =
     (IsDirectory, [''a.jpg''], [''a.jpg'' \<mapsto> File 1]) \<and>
   main (\<lambda>s. if s = ''100'' then Some 100 else None) (\<lambda>src dst. False)
        (\<lambda>p. (IsDirectory, [''a.jpg''], [''a.jpg'' \<mapsto> File 1])) [''prog'', ''photos'', ''--dry-run''] =
     Completed (rename_images (\<lambda>src dst. False) IsDirectory [''a.jpg''] 1
        (''--dry-run'' \<in> set [''prog'', ''photos'', ''--dry-run'']) [''a.jpg'' \<mapsto> File 1])"
proof -
  let ?P = "\<lambda>s. if s = ''100'' then Some (100::int) else None"
  let ?A1 = "[''prog'', ''photos'', ''--start-number'']"
  let ?A2 = "[''prog'', ''photos'', ''--start-number'', ''abc'', ''--dry-run'']"
  let ?A3 = "[''prog'', ''photos'', ''--dry-run'']"
  let ?L = "\<lambda>p::string. (IsDirectory, [''a.jpg''], [''a.jpg'' \<mapsto> File 1])"
  have a1: "py_index ?A1 ''--start-number'' = Some 2" by code_simp
  have a2: "length ?A1 \<le> 2 + 1" by simp
  have b1: "py_index ?A2 ''--start-number'' = Some 2" by code_simp
  have b2: "?P (?A2 ! (2 + 1)) = None" by simp
  have c1: "''--start-number'' \<notin> set ?A3" by simp
  have c2: "2 \<le> length ?A3" by simp
  have c3: "?L (?A3 ! 1) = (IsDirectory, [''a.jpg''], [''a.jpg'' \<mapsto> File 1])" by simp
  have r1: "\<exists>u. \<forall>denied lookup. main ?P denied lookup ?A1 = Exited 1 u"
    using start_number_parsing [where argv = ?A1 and k = 2 and py_int = ?P] a1 a2 by blast
  have r2: "\<exists>u. \<forall>denied lookup. main ?P denied lookup ?A2 = Exited 1 u"
    using start_number_parsing [where argv = ?A2 and k = 2 and py_int = ?P] b1 b2 by blast
  have r3: "main ?P (\<lambda>src dst. False) ?L ?A3 =
     Completed (rename_images (\<lambda>src dst. False) IsDirectory [''a.jpg''] 1
        (''--dry-run'' \<in> set ?A3) [''a.jpg'' \<mapsto> File 1])"
    using start_number_parsing [where argv = ?A3 and py_int = ?P and lookup = ?L
        and st = IsDirectory and listing = "[''a.jpg'']" and d = "[''a.jpg'' \<mapsto> File 1]"
        and denied = "\<lambda>src dst. False"] c1 c2 c3
    by blast
  show ?thesis
    using a1 a2 r1 b1 b2 r2 c1 c2 c3 r3 by (intro conjI)
qed

section \<open>A second run\<close>

subsection \<open>Suffixes and the order of target names\<close>





























subsection \<open>The image files after a clean run\<close>























subsection \<open>The second run\<close>




end
